theory Spec2Isabelle
  imports Main "HOL-Library.Sublist"
begin

section \<open>Spending tracker: the three form callbacks\<close>

text \<open>
  A shallow embedding of \<^verbatim>\<open>app/modules/spending_tracker.py\<close>: the callbacks
  \<^verbatim>\<open>toggle_modal\<close>, \<^verbatim>\<open>update_category_dropdown\<close> and \<^verbatim>\<open>update_output\<close>.
  A Python exception is a value of type \<open>exn\<close> on the left of a sum; every callback
  that touches storage takes the storage state and returns the new one, also when it raises.
\<close>

subsection \<open>Values exchanged with the user interface\<close>

text \<open>
  Python strings are modelled as \<open>string\<close>, one \<open>char\<close> per code point, which covers the
  code points U+0000 to U+00FF.
\<close>

datatype exn =
    Sqlite3Error string      \<comment> \<open>\<^verbatim>\<open>sqlite3.Error\<close> with its message, \<^verbatim>\<open>str(e)\<close>\<close>
  | UnboundLocalError string \<comment> \<open>a local variable read before it was assigned; its name\<close>
  | OverflowError string     \<comment> \<open>\<^verbatim>\<open>OverflowError\<close> with its message; not a \<^verbatim>\<open>sqlite3.Error\<close>\<close>

datatype color = Warning | Success | Danger

text \<open>\<^verbatim>\<open>dbc.Alert(children, color=..., duration=...)\<close>; no \<^verbatim>\<open>duration\<close> argument is \<open>None\<close>.\<close>

record alert =
  children :: string
  color :: color
  duration :: "nat option"

text \<open>What a callback hands back for one output: \<^verbatim>\<open>dash.no_update\<close> or a value.\<close>

datatype 'v dash_output = NoUpdate | Output 'v

text \<open>One entry of the dropdown: \<^verbatim>\<open>{'label': ..., 'value': ...}\<close>.\<close>

record dropdown_option =
  opt_label :: string
  opt_value :: string

text \<open>
  What the amount field delivers, \<^verbatim>\<open>Union[int, float]\<close>: a Python integer, which is
  unbounded, or a float. Floats are not embedded; their values stay opaque.
\<close>

typedecl pyfloat

datatype amount = IntAmount int | FloatAmount pyfloat

text \<open>Truthiness of a value of type \<^verbatim>\<open>Union[str, None]\<close>: \<^verbatim>\<open>None\<close> and \<^verbatim>\<open>''\<close> are false.\<close>

definition truthy :: "string option \<Rightarrow> bool" where
  "truthy v = (case v of None \<Rightarrow> False | Some s \<Rightarrow> s \<noteq> [])"

text \<open>
  \<^verbatim>\<open>str.isalnum\<close>: the string is not empty and each character is alphabetic, decimal,
  a digit or numeric. On U+0000 to U+00FF these are the ASCII digits and letters, the
  ordinal indicators U+00AA and U+00BA, the superscripts U+00B2, U+00B3 and U+00B9, the
  micro sign U+00B5, the fractions U+00BC to U+00BE, and the letters U+00C0 to U+00FF
  without the multiplication sign U+00D7 and the division sign U+00F7.
\<close>

definition isalnum_char :: "char \<Rightarrow> bool" where
  "isalnum_char c =
     (let n = (of_char c :: nat) in
        (48 \<le> n \<and> n \<le> 57) \<or> (65 \<le> n \<and> n \<le> 90) \<or> (97 \<le> n \<and> n \<le> 122)
      \<or> n = 170 \<or> n = 178 \<or> n = 179 \<or> n = 181 \<or> n = 185 \<or> n = 186
      \<or> (188 \<le> n \<and> n \<le> 190)
      \<or> (192 \<le> n \<and> n \<le> 214) \<or> (216 \<le> n \<and> n \<le> 246) \<or> 248 \<le> n)"

definition isalnum :: "string \<Rightarrow> bool" where
  "isalnum s = (s \<noteq> [] \<and> list_all isalnum_char s)"

text \<open>
  The letters and the digits of that range, as \<^verbatim>\<open>str.isalpha\<close> and \<^verbatim>\<open>str.isdigit\<close> have
  them. The fractions U+00BC to U+00BE are numeric, and so alphanumeric, without being
  either.
\<close>

definition isalpha_char :: "char \<Rightarrow> bool" where
  "isalpha_char c =
     (let n = (of_char c :: nat) in
        (65 \<le> n \<and> n \<le> 90) \<or> (97 \<le> n \<and> n \<le> 122)
      \<or> n = 170 \<or> n = 181 \<or> n = 186
      \<or> (192 \<le> n \<and> n \<le> 214) \<or> (216 \<le> n \<and> n \<le> 246) \<or> 248 \<le> n)"

definition isdigit_char :: "char \<Rightarrow> bool" where
  "isdigit_char c =
     (let n = (of_char c :: nat) in
        (48 \<le> n \<and> n \<le> 57) \<or> n = 178 \<or> n = 179 \<or> n = 185)"

subsection \<open>Storage\<close>

text \<open>
  The database file behind \<^verbatim>\<open>db_path\<close>: the rows of the two tables, the connection a
  callback has open (\<open>None\<close> when there is none, otherwise the rows inserted on it and not
  yet committed), and the storage calls made so far, oldest first. The amount column has
  the type \<open>'a\<close>; the callbacks use it at the type \<open>amount\<close>.

  \<open>call\<close> names the storage calls of the program. \<open>Prepare\<close> is no call of its own: it
  stands for what \<^verbatim>\<open>execute\<close> does before it binds the parameters (compiling the
  statement, opening the implicit transaction), and \<open>Execute\<close> for running the statement
  once they are bound.
\<close>

datatype call =
  Connect | Cursor | Prepare | Execute | Commit | Close | CreateCategory | ListCategories

record 'a world =
  categories :: "string list"
  spending :: "('a \<times> string) list"
  connection :: "('a \<times> string) list option"
  calls :: "call list"

text \<open>
  Whether a storage call raises is decided outside the program (the file system, locks,
  the schema): \<open>F c\<close> is the message of the \<^verbatim>\<open>sqlite3.Error\<close> that call \<open>c\<close> raises, or
  \<open>None\<close> when it goes through.
\<close>

type_synonym faults = "call \<Rightarrow> string option"

definition logged :: "call \<Rightarrow> 'a world \<Rightarrow> 'a world" where
  "logged c w = w\<lparr>calls := calls w @ [c]\<rparr>"

text \<open>\<^verbatim>\<open>sqlite3.connect(db_path)\<close>\<close>

definition sqlite3_connect :: "faults \<Rightarrow> 'a world \<Rightarrow> (exn + unit) \<times> 'a world" where
  "sqlite3_connect F w =
     (case F Connect of
        Some msg \<Rightarrow> (Inl (Sqlite3Error msg), logged Connect w)
      | None \<Rightarrow> (Inr (), logged Connect (w\<lparr>connection := Some []\<rparr>)))"

text \<open>\<^verbatim>\<open>conn.cursor()\<close>\<close>

definition conn_cursor :: "faults \<Rightarrow> 'a world \<Rightarrow> (exn + unit) \<times> 'a world" where
  "conn_cursor F w =
     (case F Cursor of
        Some msg \<Rightarrow> (Inl (Sqlite3Error msg), logged Cursor w)
      | None \<Rightarrow> (Inr (), logged Cursor w))"

text \<open>
  SQLite keeps an integer in 64 bits, signed. Binding a Python integer outside that range
  raises \<^verbatim>\<open>OverflowError\<close>; a float always binds.
\<close>

definition sqlite_binds :: "amount \<Rightarrow> bool" where
  "sqlite_binds a =
     (case a of IntAmount i \<Rightarrow> - (2 ^ 63) \<le> i \<and> i < 2 ^ 63 | FloatAmount x \<Rightarrow> True)"

text \<open>
  \<^verbatim>\<open>c.execute('INSERT INTO spending (amount, category) VALUES (?, ?)', (amount, category))\<close>:
  the statement is compiled, then the parameters are bound, then the statement runs. The
  first and the last step can raise \<^verbatim>\<open>sqlite3.Error\<close>; the binding raises
  \<^verbatim>\<open>OverflowError\<close> for an integer amount that does not fit, on a healthy database too.
\<close>

definition cursor_execute_insert ::
  "faults \<Rightarrow> amount \<times> string \<Rightarrow> amount world \<Rightarrow> (exn + unit) \<times> amount world" where
  "cursor_execute_insert F row w =
     (case F Prepare of
        Some msg \<Rightarrow> (Inl (Sqlite3Error msg), logged Execute w)
      | None \<Rightarrow>
          if \<not> sqlite_binds (fst row) then
            (Inl (OverflowError ''Python int too large to convert to SQLite INTEGER''),
             logged Execute w)
          else
            (case F Execute of
               Some msg \<Rightarrow> (Inl (Sqlite3Error msg), logged Execute w)
             | None \<Rightarrow>
                 (Inr (), logged Execute
                    (w\<lparr>connection := map_option (\<lambda>rows. rows @ [row]) (connection w)\<rparr>))))"

text \<open>\<^verbatim>\<open>conn.commit()\<close>: the rows inserted on the connection reach the table.\<close>

definition conn_commit :: "faults \<Rightarrow> 'a world \<Rightarrow> (exn + unit) \<times> 'a world" where
  "conn_commit F w =
     (case F Commit of
        Some msg \<Rightarrow> (Inl (Sqlite3Error msg), logged Commit w)
      | None \<Rightarrow>
          (Inr (), logged Commit
             (w\<lparr>spending := spending w @ (case connection w of None \<Rightarrow> [] | Some rows \<Rightarrow> rows),
                connection := map_option (\<lambda>rows. []) (connection w)\<rparr>)))"

text \<open>\<^verbatim>\<open>conn.close()\<close>: what was not committed is dropped with the connection.\<close>

definition conn_close :: "'a world \<Rightarrow> 'a world" where
  "conn_close w = logged Close (w\<lparr>connection := None\<rparr>)"

subsection \<open>The category repository\<close>

text \<open>
  The module \<^verbatim>\<open>modules.database\<close> with the two functions the callbacks import. Each takes
  the storage state and returns what it raised or returned, with the new state.
\<close>

record 'w repository =
  add_category_to_db :: "string \<Rightarrow> 'w \<Rightarrow> (exn + unit) \<times> 'w"
  get_categories :: "'w \<Rightarrow> (exn + string list) \<times> 'w"

text \<open>
  Modelled from the spec: the source of \<^verbatim>\<open>modules.database\<close> (\<^verbatim>\<open>add_category_to_db\<close>,
  \<^verbatim>\<open>get_categories\<close>) is missing. The spec gives a table \<^verbatim>\<open>categories(name TEXT)\<close>, a
  \<^verbatim>\<open>create_category(name)\<close> that inserts the name, with no uniqueness enforced by the
  storage layer (duplicates may be possible), a \<^verbatim>\<open>list_categories()\<close> that returns the
  sequence of names, and storage failures of both that reach the caller.
\<close>

definition database :: "faults \<Rightarrow> 'a world repository" where
  "database F =
     \<lparr>add_category_to_db = (\<lambda>category_name w.
        (case F CreateCategory of
           Some msg \<Rightarrow> (Inl (Sqlite3Error msg), logged CreateCategory w)
         | None \<Rightarrow>
             (Inr (), logged CreateCategory (w\<lparr>categories := categories w @ [category_name]\<rparr>)))),
      get_categories = (\<lambda>w.
        (case F ListCategories of
           Some msg \<Rightarrow> (Inl (Sqlite3Error msg), logged ListCategories w)
         | None \<Rightarrow> (Inr (categories w), logged ListCategories w)))\<rparr>"

subsection \<open>The callbacks\<close>

text \<open>\<^verbatim>\<open>toggle_modal(selected_value, is_open)\<close>; \<^verbatim>\<open>'ADD_NEW' in selected_value\<close> is the
  substring test of Python strings.\<close>

definition toggle_modal :: "string option \<Rightarrow> bool \<Rightarrow> bool" where
  "toggle_modal selected_value is_open =
     (if truthy selected_value \<and> (case selected_value of None \<Rightarrow> False | Some s \<Rightarrow> sublist ''ADD_NEW'' s)
      then True
      else is_open)"

text \<open>
  \<^verbatim>\<open>[{'label': cat, 'value': cat} for cat in updated_categories]
     + [{'label': 'Add new', 'value': 'ADD_NEW'}]\<close>
\<close>

definition add_new_option :: dropdown_option where
  "add_new_option = \<lparr>opt_label = ''Add new'', opt_value = ''ADD_NEW''\<rparr>"

definition dropdown_options :: "string list \<Rightarrow> dropdown_option list" where
  "dropdown_options updated_categories =
     map (\<lambda>cat. \<lparr>opt_label = cat, opt_value = cat\<rparr>) updated_categories @ [add_new_option]"

text \<open>\<^verbatim>\<open>f'Category "{new_category}" added successfully!'\<close>\<close>

definition category_added_text :: "string \<Rightarrow> string" where
  "category_added_text new_category =
     ''Category '' @ [CHR 0x22] @ new_category @ [CHR 0x22] @ '' added successfully!''"

text \<open>
  \<^verbatim>\<open>update_category_dropdown(n_clicks, new_category)\<close>, over the repository it calls. The
  result is the triple for the three outputs (dropdown options, text of the input field,
  alert), or the exception that left the callback.
\<close>

definition update_category_dropdown ::
  "'w repository \<Rightarrow> int option \<Rightarrow> string option \<Rightarrow> 'w
     \<Rightarrow> (exn + dropdown_option list dash_output \<times> string \<times> alert option) \<times> 'w" where
  "update_category_dropdown db n_clicks new_category w =
     (if n_clicks = None \<or> \<not> truthy new_category then (Inr (NoUpdate, [], None), w)
      else
        (case new_category of
           None \<Rightarrow> (Inr (NoUpdate, [], None), w) \<comment> \<open>not reached: \<^verbatim>\<open>None\<close> is not truthy\<close>
         | Some s \<Rightarrow>
             if \<not> isalnum s then
               (Inr (NoUpdate, [],
                  Some \<lparr>children = ''Invalid category name.'', color = Warning,
                        duration = None\<rparr>), w)
             else
               (case add_category_to_db db s w of
                  (Inl e, w1) \<Rightarrow> (Inl e, w1)
                | (Inr u, w1) \<Rightarrow>
                    (case get_categories db w1 of
                       (Inl e, w2) \<Rightarrow> (Inl e, w2)
                     | (Inr updated_categories, w2) \<Rightarrow>
                         (Inr (Output (dropdown_options updated_categories), [],
                            Some \<lparr>children = category_added_text s, color = Success,
                                  duration = None\<rparr>), w2)))))"

text \<open>
  \<^verbatim>\<open>f'Database error: {e}'\<close> and
  \<^verbatim>\<open>f'Amount: {amount}, Category: {category} added successfully!'\<close>, the latter over the
  text an f-string gives for the amount.
\<close>

definition database_error_text :: "string \<Rightarrow> string" where
  "database_error_text e = ''Database error: '' @ e"

definition amount_added_text :: "string \<Rightarrow> string \<Rightarrow> string" where
  "amount_added_text amount category =
     ''Amount: '' @ amount @ '', Category: '' @ category @ '' added successfully!''"

text \<open>
  The \<^verbatim>\<open>try\<close> suite of \<^verbatim>\<open>update_output\<close>: connect, cursor, execute, commit, stopping at
  the first call that raises, with a \<^verbatim>\<open>sqlite3.Error\<close> or not. The second component says
  whether the local variable \<^verbatim>\<open>conn\<close> has been assigned.
\<close>

definition try_insert ::
  "faults \<Rightarrow> amount \<Rightarrow> string \<Rightarrow> amount world \<Rightarrow> (exn + unit) \<times> bool \<times> amount world" where
  "try_insert F amount category w =
     (case sqlite3_connect F w of
        (Inl e, w1) \<Rightarrow> (Inl e, False, w1)
      | (Inr u1, w1) \<Rightarrow>
          (case conn_cursor F w1 of
             (Inl e, w2) \<Rightarrow> (Inl e, True, w2)
           | (Inr u2, w2) \<Rightarrow>
               (case cursor_execute_insert F (amount, category) w2 of
                  (Inl e, w3) \<Rightarrow> (Inl e, True, w3)
                | (Inr u3, w3) \<Rightarrow>
                    (case conn_commit F w3 of
                       (Inl e, w4) \<Rightarrow> (Inl e, True, w4)
                     | (Inr u4, w4) \<Rightarrow> (Inr (), True, w4)))))"

text \<open>
  The \<^verbatim>\<open>finally\<close> suite, \<^verbatim>\<open>conn.close()\<close>, run with the outcome \<open>r\<close> that is pending (a
  value about to be returned, an exception on its way out, or nothing yet). Reading
  \<^verbatim>\<open>conn\<close> before it was assigned raises, and that exception replaces the pending outcome.
\<close>

definition finally_close ::
  "bool \<Rightarrow> 'r \<Rightarrow> 'a world \<Rightarrow> (exn + 'r) \<times> 'a world" where
  "finally_close conn_assigned r w =
     (if conn_assigned then (Inr r, conn_close w)
      else (Inl (UnboundLocalError ''conn''), w))"

text \<open>
  \<^verbatim>\<open>update_output(n_clicks, amount, category)\<close>. \<open>str_amount\<close> is the text an f-string
  gives for an amount, \<^verbatim>\<open>format(amount)\<close>. The \<^verbatim>\<open>except\<close> clause takes a
  \<^verbatim>\<open>sqlite3.Error\<close> only; any other exception of the \<^verbatim>\<open>try\<close> suite leaves the callback
  once the \<^verbatim>\<open>finally\<close> suite has run.
\<close>

definition update_output ::
  "faults \<Rightarrow> (amount \<Rightarrow> string) \<Rightarrow> int option \<Rightarrow> amount option \<Rightarrow> string option
     \<Rightarrow> amount world \<Rightarrow> (exn + alert dash_output) \<times> amount world" where
  "update_output F str_amount n_clicks amount category w =
     (case n_clicks of
        None \<Rightarrow> (Inr NoUpdate, w)
      | Some n \<Rightarrow>
          if n > 0 then
            (case (amount, category) of
               (Some a, Some c) \<Rightarrow>
                 (case try_insert F a c w of
                    (Inl (Sqlite3Error msg), conn_assigned, w1) \<Rightarrow>
                      finally_close conn_assigned
                        (Output \<lparr>children = database_error_text msg, color = Danger,
                                 duration = Some 3000\<rparr>) w1
                  | (Inl e, conn_assigned, w1) \<Rightarrow>
                      (case finally_close conn_assigned () w1 of
                         (Inl e', w2) \<Rightarrow> (Inl e', w2)
                       | (Inr u, w2) \<Rightarrow> (Inl e, w2))
                  | (Inr u, conn_assigned, w1) \<Rightarrow>
                      (case finally_close conn_assigned () w1 of
                         (Inl e', w2) \<Rightarrow> (Inl e', w2)
                       | (Inr u', w2) \<Rightarrow>
                           (Inr (Output
                              \<lparr>children = amount_added_text (str_amount a) c,
                               color = Success, duration = Some 3000\<rparr>), w2)))
             | _ \<Rightarrow>
                 (Inr (Output
                    \<lparr>children = ''Please enter a valid amount and select a category'',
                     color = Danger, duration = Some 3000\<rparr>), w))
          else
            (Inr (Output
               \<lparr>children = ''Enter amount and select a category'', color = Warning,
                duration = Some 3000\<rparr>), w))"

subsection \<open>Concrete inputs\<close>

text \<open>Storage with no rows and no call made yet.\<close>

definition empty_world :: "amount world" where
  "empty_world = \<lparr>categories = [], spending = [], connection = None, calls = []\<rparr>"

text \<open>No storage call raises; exactly the call \<open>c\<close> raises, with message \<open>msg\<close>.\<close>

definition no_faults :: faults where
  "no_faults = (\<lambda>c. None)"

definition fault_at :: "call \<Rightarrow> string \<Rightarrow> faults" where
  "fault_at c msg = (\<lambda>c'. if c' = c then Some msg else None)"

text \<open>\<^verbatim>\<open>str\<close> of a Python integer: decimal digits, with a minus sign below zero.\<close>

fun str_nat :: "nat \<Rightarrow> string" where
  "str_nat n =
     (if n < 10 then [char_of (48 + n)] else str_nat (n div 10) @ [char_of (48 + n mod 10)])"

declare str_nat.simps [simp del]

definition str_int :: "int \<Rightarrow> string" where
  "str_int i = (if i < 0 then CHR ''-'' # str_nat (nat (- i)) else str_nat (nat i))"

text \<open>
  \<^verbatim>\<open>format\<close> on the integer amounts, for the concrete inputs below, whose amounts are
  integers. The text of a float is not modelled and is left empty here.
\<close>

definition format_int_amount :: "amount \<Rightarrow> string" where
  "format_int_amount a = (case a of IntAmount i \<Rightarrow> str_int i | FloatAmount x \<Rightarrow> [])"

section \<open>Properties\<close>

subsection \<open>Auxiliary facts\<close>

lemmas storage_defs = sqlite3_connect_def conn_cursor_def cursor_execute_insert_def
  conn_commit_def conn_close_def logged_def try_insert_def finally_close_def

lemma isalnum_Food: "isalnum ''Food''"
  by (simp add: isalnum_def isalnum_char_def)

lemma not_isalnum_a_b: "\<not> isalnum ''a b''"
  by (simp add: isalnum_def isalnum_char_def)

text \<open>
  Alphanumeric is letter, digit or one of the three fractions: the only characters of the
  range that \<^verbatim>\<open>str.isalnum\<close> takes and that are neither letters nor digits.
\<close>

lemma isalnum_char_iff:
  "isalnum_char c \<longleftrightarrow>
     isalpha_char c \<or> isdigit_char c \<or> (188 \<le> (of_char c :: nat) \<and> (of_char c :: nat) \<le> 190)"
  unfolding isalnum_char_def isalpha_char_def isdigit_char_def Let_def by arith

lemma isalnum_not_empty: "isalnum s \<Longrightarrow> s \<noteq> []"
  by (auto simp: isalnum_def)

text \<open>The underscore is not alphanumeric, so no valid category name is the sentinel value.\<close>

lemma isalnum_not_sentinel: "isalnum s \<Longrightarrow> s \<noteq> ''ADD_NEW''"
  by (auto simp: isalnum_def isalnum_char_def)

lemma count_dropdown_options:
  "s \<noteq> ''ADD_NEW'' \<Longrightarrow>
   length (filter (\<lambda>opt. opt_value opt = s) (dropdown_options cs)) = count_list cs s"
  by (induction cs) (auto simp: dropdown_options_def add_new_option_def)


lemma sublist_category_added_text: "sublist s (category_added_text s)"
proof -
  have "category_added_text s
      = (''Category '' @ [CHR 0x22]) @ s @ ([CHR 0x22] @ '' added successfully!'')"
    by (simp add: category_added_text_def)
  then show ?thesis unfolding sublist_def by blast
qed

lemma sublist_database_error_text: "sublist msg (database_error_text msg)"
  unfolding database_error_text_def by (rule sublist_append_leftI)

subsection \<open>Submitting a spending record\<close>




text \<open>
  C6. With a positive click count and the amount or the category missing,
  \<^verbatim>\<open>update_output\<close> returns the danger alert
  \<^verbatim>\<open>Please enter a valid amount and select a category\<close> with duration 3000 and leaves
  storage as it was: no row is inserted and no storage call is made.
\<close>

theorem update_output_missing_input:
  assumes "0 < n" and "amount = None \<or> category = None"
  shows "update_output F str_amount (Some n) amount category w =
     (Inr (Output \<lparr>children = ''Please enter a valid amount and select a category'',
                   color = Danger, duration = Some 3000\<rparr>), w)"
  using assms by (auto simp: update_output_def split: option.splits)

theorem update_output_missing_input_witness:
  "update_output no_faults format_int_amount (Some 1) None (Some ''Food'') empty_world =
     (Inr (Output \<lparr>children = ''Please enter a valid amount and select a category'',
                   color = Danger, duration = Some 3000\<rparr>), empty_world)
   \<and> spending (snd (update_output no_faults format_int_amount (Some 1) (Some (IntAmount 42))
         None empty_world)) = []"
  using update_output_missing_input [where n = 1 and amount = None
        and category = "Some ''Food''" and F = no_faults and str_amount = format_int_amount
        and w = empty_world]
    update_output_missing_input [where n = 1 and amount = "Some (IntAmount 42)"
        and category = None and F = no_faults and str_amount = format_int_amount
        and w = empty_world]
  by (simp add: empty_world_def)

text \<open>
  C7. Without a click count \<^verbatim>\<open>update_output\<close> returns \<^verbatim>\<open>dash.no_update\<close>; with a click
  count of zero or less it returns the warning alert
  \<^verbatim>\<open>Enter amount and select a category\<close> (the spec closes its sentence with a full stop
  inside the quotation marks); in both cases storage is left as it was.
\<close>

theorem update_output_no_click:
  "update_output F str_amount None amount category w = (Inr NoUpdate, w) \<and>
   (n \<le> 0 \<longrightarrow>
      update_output F str_amount (Some n) amount category w =
        (Inr (Output \<lparr>children = ''Enter amount and select a category'', color = Warning,
                      duration = Some 3000\<rparr>), w))"
  by (simp add: update_output_def)

theorem update_output_no_click_witness:
  "update_output no_faults format_int_amount None (Some (IntAmount 42)) (Some ''Food'')
       empty_world = (Inr NoUpdate, empty_world) \<and>
   update_output no_faults format_int_amount (Some 0) (Some (IntAmount 42)) (Some ''Food'')
       empty_world =
        (Inr (Output \<lparr>children = ''Enter amount and select a category'', color = Warning,
                      duration = Some 3000\<rparr>), empty_world)"
  using update_output_no_click [where F = no_faults and str_amount = format_int_amount
        and amount = "Some (IntAmount 42)" and category = "Some ''Food''" and w = empty_world
        and n = 0]
  by simp

text \<open>
  Storage errors inside the \<^verbatim>\<open>try\<close> suite. When the cursor, the insert or the commit
  raises \<^verbatim>\<open>sqlite3.Error\<close>, the \<^verbatim>\<open>except\<close> clause turns the error into a danger alert that
  carries its text, the \<^verbatim>\<open>finally\<close> clause closes the connection, the table keeps its
  rows and every call is made once.
\<close>

lemma update_output_cursor_error:
  assumes "0 < n" and "F Connect = None" and "F Cursor = Some msg"
  shows "update_output F str_amount (Some n) (Some a) (Some c) w =
     (Inr (Output \<lparr>children = database_error_text msg, color = Danger,
                   duration = Some 3000\<rparr>),
      w\<lparr>connection := None, calls := calls w @ [Connect, Cursor, Close]\<rparr>)"
  using assms by (simp add: update_output_def storage_defs)

lemma update_output_prepare_error:
  assumes "0 < n" and "F Connect = None" and "F Cursor = None" and "F Prepare = Some msg"
  shows "update_output F str_amount (Some n) (Some a) (Some c) w =
     (Inr (Output \<lparr>children = database_error_text msg, color = Danger,
                   duration = Some 3000\<rparr>),
      w\<lparr>connection := None, calls := calls w @ [Connect, Cursor, Execute, Close]\<rparr>)"
  using assms by (simp add: update_output_def storage_defs)

lemma update_output_execute_error:
  assumes "0 < n" and "sqlite_binds a" and "F Connect = None" and "F Cursor = None"
    and "F Prepare = None" and "F Execute = Some msg"
  shows "update_output F str_amount (Some n) (Some a) (Some c) w =
     (Inr (Output \<lparr>children = database_error_text msg, color = Danger,
                   duration = Some 3000\<rparr>),
      w\<lparr>connection := None, calls := calls w @ [Connect, Cursor, Execute, Close]\<rparr>)"
  using assms by (simp add: update_output_def storage_defs)

lemma update_output_commit_error:
  assumes "0 < n" and "sqlite_binds a" and "F Connect = None" and "F Cursor = None"
    and "F Prepare = None" and "F Execute = None" and "F Commit = Some msg"
  shows "update_output F str_amount (Some n) (Some a) (Some c) w =
     (Inr (Output \<lparr>children = database_error_text msg, color = Danger,
                   duration = Some 3000\<rparr>),
      w\<lparr>connection := None,
        calls := calls w @ [Connect, Cursor, Execute, Commit, Close]\<rparr>)"
  using assms by (simp add: update_output_def storage_defs)

text \<open>
  An integer amount outside the signed 64-bit range, on a database that compiles the
  statement: \<^verbatim>\<open>OverflowError\<close> passes the \<^verbatim>\<open>except\<close> clause, the \<^verbatim>\<open>finally\<close> clause
  closes the connection, and the exception leaves the callback.
\<close>

lemma update_output_overflow:
  assumes "0 < n" and "\<not> sqlite_binds a" and "F Connect = None" and "F Cursor = None"
    and "F Prepare = None"
  shows "update_output F str_amount (Some n) (Some a) (Some c) w =
     (Inl (OverflowError ''Python int too large to convert to SQLite INTEGER''),
      w\<lparr>connection := None, calls := calls w @ [Connect, Cursor, Execute, Close]\<rparr>)"
  using assms by (simp add: update_output_def storage_defs)

text \<open>
  When \<^verbatim>\<open>sqlite3.connect\<close> itself raises, the local variable \<^verbatim>\<open>conn\<close> has no value yet:
  the \<^verbatim>\<open>finally\<close> clause reads it, and the callback leaves with \<^verbatim>\<open>UnboundLocalError\<close>
  in place of the alert the \<^verbatim>\<open>except\<close> clause was returning.
\<close>

lemma update_output_connect_error:
  assumes "0 < n" and "F Connect = Some msg"
  shows "update_output F str_amount (Some n) (Some a) (Some c) w =
     (Inl (UnboundLocalError ''conn''), w\<lparr>calls := calls w @ [Connect]\<rparr>)"
  using assms by (simp add: update_output_def storage_defs)

text \<open>
  C8 at a failing input: one click, amount 42, category \<^verbatim>\<open>Food\<close>, and a database file that
  cannot be opened. The claim asks for a danger alert with the error text; the callback
  raises \<^verbatim>\<open>UnboundLocalError\<close> and returns no alert.
\<close>

theorem update_output_connect_error_raises:
  "update_output (fault_at Connect ''unable to open database file'') format_int_amount
       (Some 1) (Some (IntAmount 42)) (Some ''Food'') empty_world =
     (Inl (UnboundLocalError ''conn''), empty_world\<lparr>calls := [Connect]\<rparr>)"
  by (simp add: update_output_def storage_defs fault_at_def empty_world_def)

subsection \<open>Opening the dialog\<close>

text \<open>
  C5, as the code has it. \<^verbatim>\<open>toggle_modal\<close> returns true when the selected value is a
  string that contains \<^verbatim>\<open>ADD_NEW\<close> as a substring, in particular when it is the sentinel
  itself; for every other selected value (\<^verbatim>\<open>None\<close>, the empty string, a string without
  that substring) it returns the current state of the dialog. It touches nothing else: the
  callback is a function of its two arguments.
\<close>

theorem toggle_modal_substring:
  "toggle_modal (Some ''ADD_NEW'') is_open = True \<and>
   toggle_modal selected_value is_open =
     (if (\<exists>s. selected_value = Some s \<and> sublist ''ADD_NEW'' s) then True else is_open)"
  by (auto simp: toggle_modal_def truthy_def split: option.splits)

theorem toggle_modal_substring_witness:
  "toggle_modal (Some ''ADD_NEW'') False = True \<and> toggle_modal (Some ''Food'') False = False
   \<and> toggle_modal None True = True"
  using toggle_modal_substring [where is_open = False and selected_value = "Some ''Food''"]
    toggle_modal_substring [where is_open = True and selected_value = None]
  by (simp add: sublist_code)

text \<open>
  A selected value that is not the sentinel but contains it opens the closed dialog.
\<close>

theorem toggle_modal_counterexample:
  "Some ''MY_ADD_NEW'' \<noteq> Some ''ADD_NEW'' \<and> toggle_modal (Some ''MY_ADD_NEW'') False \<noteq> False"
  by (simp add: toggle_modal_def truthy_def sublist_code)

subsection \<open>Adding a category\<close>

text \<open>
  C4, as the code has it. When the click count is absent (\<^verbatim>\<open>None\<close>) or the new-category
  text is empty or absent, \<^verbatim>\<open>update_category_dropdown\<close> returns \<^verbatim>\<open>dash.no_update\<close> for
  the options, the empty string for the text field and no alert, and leaves storage as it
  was, whatever the repository is.
\<close>

theorem update_category_dropdown_short_circuit:
  assumes "n_clicks = None \<or> new_category = None \<or> new_category = Some []"
  shows "update_category_dropdown db n_clicks new_category w = (Inr (NoUpdate, [], None), w)"
  using assms by (auto simp: update_category_dropdown_def truthy_def)

theorem update_category_dropdown_short_circuit_witness:
  "update_category_dropdown (database no_faults) None (Some ''Food'') empty_world
     = (Inr (NoUpdate, [], None), empty_world)
   \<and> update_category_dropdown (database no_faults) (Some 1) (Some []) empty_world
     = (Inr (NoUpdate, [], None), empty_world)"
  using update_category_dropdown_short_circuit [where n_clicks = None
        and new_category = "Some ''Food''" and db = "database no_faults" and w = empty_world]
    update_category_dropdown_short_circuit [where n_clicks = "Some 1"
        and new_category = "Some []" and db = "database no_faults" and w = empty_world]
  by simp

text \<open>
  A click count of zero is not short-circuited: with a valid name the category is inserted
  and the options are rebuilt.
\<close>

theorem update_category_dropdown_zero_clicks_counterexample:
  "update_category_dropdown (database no_faults) (Some 0) (Some ''Food'') empty_world =
     (Inr (Output [\<lparr>opt_label = ''Food'', opt_value = ''Food''\<rparr>,
                   \<lparr>opt_label = ''Add new'', opt_value = ''ADD_NEW''\<rparr>], [],
           Some \<lparr>children = category_added_text ''Food'', color = Success, duration = None\<rparr>),
      empty_world\<lparr>categories := [''Food''], calls := [CreateCategory, ListCategories]\<rparr>)"
  by (simp add: update_category_dropdown_def truthy_def isalnum_Food database_def no_faults_def
      logged_def empty_world_def dropdown_options_def add_new_option_def)

text \<open>
  This does not depend on the repository: with a click count of zero and a valid name the
  callback reaches the repository and never gives the short-circuit's result.
\<close>

lemma update_category_dropdown_zero_clicks_not_short_circuit:
  assumes "isalnum s"
  shows "fst (update_category_dropdown db (Some 0) (Some s) w) \<noteq> Inr (NoUpdate, [], None)"
  using assms isalnum_not_empty [OF assms]
  by (auto simp: update_category_dropdown_def truthy_def split: prod.splits sum.splits)

text \<open>
  C3, as the code has it. On validation, that is with a click count present and a text that
  is not empty, \<^verbatim>\<open>update_category_dropdown\<close> rejects the text exactly when
  \<^verbatim>\<open>str.isalnum\<close> is false for it: it then returns the warning alert
  \<^verbatim>\<open>Invalid category name.\<close>, \<^verbatim>\<open>dash.no_update\<close> for the options and the empty string
  for the text field, and leaves storage as it was, whatever the repository is. Every text
  with a space or a punctuation mark is rejected; a text of letters, digits and other
  numeric characters is not.
\<close>

theorem update_category_dropdown_rejects_invalid:
  assumes "s \<noteq> []" and "\<not> isalnum s"
  shows "update_category_dropdown db (Some n) (Some s) w =
     (Inr (NoUpdate, [],
        Some \<lparr>children = ''Invalid category name.'', color = Warning, duration = None\<rparr>), w)"
  using assms by (simp add: update_category_dropdown_def truthy_def)

theorem update_category_dropdown_rejects_invalid_witness:
  "''a b'' \<noteq> [] \<and> \<not> isalnum ''a b'' \<and>
   update_category_dropdown (database no_faults) (Some 1) (Some ''a b'') empty_world =
     (Inr (NoUpdate, [],
        Some \<lparr>children = ''Invalid category name.'', color = Warning, duration = None\<rparr>),
      empty_world)"
  using not_isalnum_a_b update_category_dropdown_rejects_invalid [where s = "''a b''"
      and n = 1 and db = "database no_faults" and w = empty_world]
  by simp

text \<open>
  A text that \<^verbatim>\<open>str.isalnum\<close> takes never gets the warning, whatever the repository is.
\<close>

lemma update_category_dropdown_alnum_not_rejected:
  assumes "isalnum s"
  shows "fst (update_category_dropdown db (Some n) (Some s) w) \<noteq>
     Inr (NoUpdate, [],
        Some \<lparr>children = ''Invalid category name.'', color = Warning, duration = None\<rparr>)"
  using assms isalnum_not_empty [OF assms]
  by (auto simp: update_category_dropdown_def truthy_def split: prod.splits sum.splits)

text \<open>
  The text made of the one character U+00BD, the fraction one half, holds a character that
  is neither a letter nor a digit. With one click it passes validation: the category is
  inserted and the success alert returned, not the warning.
\<close>

theorem update_category_dropdown_fraction_counterexample:
  "\<not> isalpha_char (CHR 0xBD) \<and> \<not> isdigit_char (CHR 0xBD) \<and>
   update_category_dropdown (database no_faults) (Some 1) (Some [CHR 0xBD]) empty_world =
     (Inr (Output [\<lparr>opt_label = [CHR 0xBD], opt_value = [CHR 0xBD]\<rparr>,
                   \<lparr>opt_label = ''Add new'', opt_value = ''ADD_NEW''\<rparr>], [],
        Some \<lparr>children = category_added_text [CHR 0xBD], color = Success,
              duration = None\<rparr>),
      empty_world\<lparr>categories := [[CHR 0xBD]], calls := [CreateCategory, ListCategories]\<rparr>)"
  by (simp add: update_category_dropdown_def truthy_def isalnum_def isalnum_char_def
      isalpha_char_def isdigit_char_def database_def no_faults_def logged_def empty_world_def
      dropdown_options_def add_new_option_def)

text \<open>
  C9. With a click count present and an alphanumeric text, \<^verbatim>\<open>update_category_dropdown\<close>
  catches nothing: it raises the exception \<open>e\<close> exactly when \<^verbatim>\<open>add_category_to_db\<close>
  raises \<open>e\<close>, or \<^verbatim>\<open>add_category_to_db\<close> returns and the \<^verbatim>\<open>get_categories\<close> that follows
  it raises \<open>e\<close>. This holds for every repository and every click count, the positive ones
  among them.
\<close>

theorem update_category_dropdown_propagates:
  assumes "isalnum s"
  shows "fst (update_category_dropdown db (Some n) (Some s) w) = Inl e \<longleftrightarrow>
     (fst (add_category_to_db db s w) = Inl e \<or>
      (\<exists>u. fst (add_category_to_db db s w) = Inr u) \<and>
        fst (get_categories db (snd (add_category_to_db db s w))) = Inl e)"
  using assms isalnum_not_empty [OF assms]
  by (auto simp: update_category_dropdown_def truthy_def split: prod.splits sum.splits)

theorem update_category_dropdown_propagates_witness:
  "isalnum ''Food'' \<and>
   fst (update_category_dropdown
          (database (fault_at ListCategories ''no such table: categories''))
          (Some 1) (Some ''Food'') empty_world)
     = Inl (Sqlite3Error ''no such table: categories'')"
  using isalnum_Food update_category_dropdown_propagates
      [where s = "''Food''" and n = 1 and w = empty_world
        and db = "database (fault_at ListCategories ''no such table: categories'')"
        and e = "Sqlite3Error ''no such table: categories''"]
  by (simp add: database_def fault_at_def)

text \<open>
  C10. Every invocation of \<^verbatim>\<open>update_category_dropdown\<close> either returns, and then the value
  for the text field is the empty string, or raises, which happens only past validation
  (click count present, alphanumeric text). So the short-circuit, the validation failure
  and the success all clear the field, and a rejected name is erased.
\<close>

theorem update_category_dropdown_text_cleared:
  "(\<exists>options al. fst (update_category_dropdown db n_clicks new_category w)
        = Inr (options, [], al))
   \<or> (\<exists>e s. fst (update_category_dropdown db n_clicks new_category w) = Inl e
        \<and> new_category = Some s \<and> isalnum s \<and> n_clicks \<noteq> None)"
  by (auto simp: update_category_dropdown_def split: option.splits prod.splits sum.splits)

theorem update_category_dropdown_text_cleared_witness:
  "(\<exists>options al. fst (update_category_dropdown (database no_faults) (Some 1) (Some ''a b'')
        empty_world) = Inr (options, [], al))
   \<and> (\<exists>options al. fst (update_category_dropdown (database no_faults) None (Some ''Food'')
        empty_world) = Inr (options, [], al))"
  using not_isalnum_a_b
    update_category_dropdown_text_cleared [where db = "database no_faults"
        and n_clicks = "Some 1" and new_category = "Some ''a b''" and w = empty_world]
    update_category_dropdown_text_cleared [where db = "database no_faults"
        and n_clicks = None and new_category = "Some ''Food''" and w = empty_world]
  by simp

text \<open>
  The success path, for every repository. When \<^verbatim>\<open>add_category_to_db\<close> returns and the
  \<^verbatim>\<open>get_categories\<close> that follows returns the list \<open>cs\<close>, the callback returns one option
  per name of \<open>cs\<close>, in order, followed by the \<^verbatim>\<open>ADD_NEW\<close> option, the empty string for the
  text field and the success alert, whose text contains the new name. The new name is
  among the options as often as it is in \<open>cs\<close>: the callback neither drops nor repeats a
  name, and the sentinel is no valid name. How often the repository lists a name is
  decided in \<^verbatim>\<open>modules.database\<close>.
\<close>

lemma update_category_dropdown_success:
  assumes "isalnum s" and "add_category_to_db db s w = (Inr u, w1)"
    and "get_categories db w1 = (Inr cs, w2)"
  shows "update_category_dropdown db (Some n) (Some s) w =
     (Inr (Output (dropdown_options cs), [],
        Some \<lparr>children = category_added_text s, color = Success, duration = None\<rparr>), w2)"
    and "length (filter (\<lambda>opt. opt_value opt = s) (dropdown_options cs)) = count_list cs s"
    and "last (dropdown_options cs) = add_new_option"
    and "sublist s (category_added_text s)"
proof -
  show "update_category_dropdown db (Some n) (Some s) w =
     (Inr (Output (dropdown_options cs), [],
        Some \<lparr>children = category_added_text s, color = Success, duration = None\<rparr>), w2)"
    using assms isalnum_not_empty [OF assms(1)]
    by (simp add: update_category_dropdown_def truthy_def)
  show "length (filter (\<lambda>opt. opt_value opt = s) (dropdown_options cs)) = count_list cs s"
    using isalnum_not_sentinel [OF assms(1)] by (rule count_dropdown_options)
  show "last (dropdown_options cs) = add_new_option"
    by (simp add: dropdown_options_def)
  show "sublist s (category_added_text s)"
    by (rule sublist_category_added_text)
qed

end
